theory Spec2Isabelle
  imports Main
begin

section \<open>Capital letter indicators for text selection\<close>

text \<open>
  A shallow embedding of \<^verbatim>\<open>addon/globalPlugins/capitalSelectionIndicator.py\<close>.
  Python strings are modelled as \<^typ>\<open>string\<close>, one \<^typ>\<open>char\<close> per Python
  character. Only the ASCII characters have a fixed meaning; what the interpreter's
  Unicode database says of the other characters is a parameter of the model.
  Exceptions are values of \<open>error\<close>; a function that can raise returns
  \<open>error + 'a\<close> with \<open>Inl\<close> for the exception.
\<close>

subsection \<open>Speech sequences\<close>

text \<open>
  A \<^verbatim>\<open>SpeechSequence\<close> is a list whose items are strings or speech commands. The
  commands this add-on meets are \<^verbatim>\<open>PitchCommand(offset)\<close> and
  \<^verbatim>\<open>BeepCommand(hz, length)\<close>.
\<close>

datatype speechItem =
  Text string
| PitchCommand int
| BeepCommand nat nat

type_synonym speechSequence = "speechItem list"

datatype error = KeyError | ValueError

fun isText :: "speechItem \<Rightarrow> bool" where
  "isText (Text s) = True"
| "isText (PitchCommand k) = False"
| "isText (BeepCommand hz ms) = False"

text \<open>The string segments of a sequence, concatenated in order.\<close>

fun spokenText :: "speechSequence \<Rightarrow> string" where
  "spokenText [] = []"
| "spokenText (Text s # xs) = s @ spokenText xs"
| "spokenText (PitchCommand k # xs) = spokenText xs"
| "spokenText (BeepCommand hz ms # xs) = spokenText xs"

subsection \<open>Python string primitives\<close>

text \<open>\<^verbatim>\<open>s.startswith(sub)\<close>.\<close>

fun startsWith :: "string \<Rightarrow> string \<Rightarrow> bool" where
  "startsWith [] s = True"
| "startsWith (p # ps) [] = False"
| "startsWith (p # ps) (c # cs) = (p = c \<and> startsWith ps cs)"

text \<open>\<^verbatim>\<open>sub in s\<close>: \<open>sub\<close> occurs in \<open>s\<close> at some position.\<close>

fun strContains :: "string \<Rightarrow> string \<Rightarrow> bool" where
  "strContains sub [] = startsWith sub []"
| "strContains sub (c # cs) = (startsWith sub (c # cs) \<or> strContains sub cs)"

text \<open>
  \<^verbatim>\<open>s.split(sub, 1)\<close> for a non-empty separator: the list \<open>[s]\<close> when the
  separator does not occur, and \<open>[before, after]\<close>, cut at the leftmost occurrence,
  when it does.
\<close>

fun split1 :: "string \<Rightarrow> string \<Rightarrow> string list" where
  "split1 sub [] = [[]]"
| "split1 sub (c # cs) =
     (if startsWith sub (c # cs) then [[], drop (length sub) (c # cs)]
      else (case split1 sub cs of
              [beforeText, afterText] \<Rightarrow> [c # beforeText, afterText]
            | _ \<Rightarrow> [c # cs]))"

subsection \<open>Template substitution\<close>

text \<open>
  \<^verbatim>\<open>_buildSpeechFromTemplate\<close> (lines 31-56). The tuple assignment
  \<^verbatim>\<open>before, after = template.split("%s", 1)\<close> raises \<^verbatim>\<open>ValueError\<close> when the list
  does not have two elements.
\<close>

definition buildSpeechFromTemplate :: "string \<Rightarrow> speechSequence \<Rightarrow> error + speechSequence" where
  "buildSpeechFromTemplate template charSequence =
     (if \<not> strContains ''%s'' template then Inr (charSequence @ [Text template])
      else (case split1 ''%s'' template of
              [beforeText, afterText] \<Rightarrow>
                Inr ((if beforeText \<noteq> [] then [Text beforeText] else [])
                     @ charSequence
                     @ (if afterText \<noteq> [] then [Text afterText] else []))
            | _ \<Rightarrow> Inl ValueError))"

text \<open>
  The words of the specification, for comparison with the code: the number of
  occurrences of the placeholder in a string, and the string with every occurrence
  replaced (Python's \<^verbatim>\<open>str.replace\<close>, left to right).
\<close>

fun spec_countPlaceholder :: "string \<Rightarrow> nat" where
  "spec_countPlaceholder [] = 0"
| "spec_countPlaceholder (c # cs) =
     (if startsWith ''%s'' (c # cs) then 1 else 0) + spec_countPlaceholder cs"

function spec_replacePlaceholder :: "string \<Rightarrow> string \<Rightarrow> string" where
  "spec_replacePlaceholder [] s = []"
| "spec_replacePlaceholder (c # cs) s =
     (if startsWith ''%s'' (c # cs) then s @ spec_replacePlaceholder (drop 1 cs) s
      else c # spec_replacePlaceholder cs s)"
  by pat_completeness auto
termination
  by (relation "measure (\<lambda>(t, s). length t)") auto

subsection \<open>The host\<close>

text \<open>
  Modelled from the spec: the host application (the screen reader's synthesizer
  handler, configuration, symbol processing, translation and speech modules), which
  the add-on imports and which is not part of this repository. Every host function the
  add-on calls is a field of the record \<open>host\<close>, so the add-on's functions are
  modelled for an arbitrary host.
  \<^item> \<open>getSynth\<close>: the active synthesizer, \<open>None\<close> when there is none;
  \<^item> \<open>conf_speech\<close>: \<^verbatim>\<open>config.conf["speech"]\<close>, from a synthesizer's name to its
    settings; subscripting it with a name it does not have raises \<^verbatim>\<open>KeyError\<close>;
  \<^item> \<open>processSpeechSymbol\<close>: \<^verbatim>\<open>characterProcessing.processSpeechSymbol(locale, symbol)\<close>;
  \<^item> \<open>getSpellingCharAddCapNotification\<close>: the host's single-character notification
    builder, called with the character's spoken form, the say-cap flag, the pitch
    offset and the beep flag;
  \<^item> \<open>gettext\<close>: the translation function \<^verbatim>\<open>_\<close>;
  \<^item> \<open>getCurrentLanguage\<close>: \<^verbatim>\<open>speech.getCurrentLanguage()\<close>;
  \<^item> \<open>isupperNonAscii\<close>: the answer of the interpreter's \<^verbatim>\<open>str.isupper\<close> for a
    string that has a character outside ASCII, which the Unicode database of the
    interpreter decides.
\<close>

datatype commandClass = PitchCommandClass | BeepCommandClass | OtherCommandClass nat

record synthDriver =
  name :: string
  supportedCommands :: "commandClass set"

record synthConfig =
  capPitchChange :: int
  sayCapForCapitals :: bool
  beepForCapitals :: bool

record host =
  getSynth :: "synthDriver option"
  conf_speech :: "string \<rightharpoonup> synthConfig"
  processSpeechSymbol :: "string \<Rightarrow> string \<Rightarrow> string"
  getSpellingCharAddCapNotification :: "string \<Rightarrow> bool \<Rightarrow> int \<Rightarrow> bool \<Rightarrow> speechSequence"
  gettext :: "string \<Rightarrow> string"
  getCurrentLanguage :: string
  isupperNonAscii :: "string \<Rightarrow> bool"

subsection \<open>Python's \<^verbatim>\<open>str.isupper\<close>\<close>

text \<open>
  \<^verbatim>\<open>s.isupper()\<close> holds when \<open>s\<close> has an uppercase character and no lowercase
  character. For a string of ASCII characters the uppercase characters are \<open>A\<close> to
  \<open>Z\<close> and the lowercase ones \<open>a\<close> to \<open>z\<close>. For a string with a character outside
  ASCII the answer is the parameter \<open>isupperNonAscii\<close>: the model does not fix which
  of those characters are cased.
\<close>

definition isAscii :: "char \<Rightarrow> bool" where
  "isAscii c = ((of_char c :: nat) < 128)"

definition isAsciiUpper :: "char \<Rightarrow> bool" where
  "isAsciiUpper c = (let n = (of_char c :: nat) in 65 \<le> n \<and> n \<le> 90)"

definition isAsciiLower :: "char \<Rightarrow> bool" where
  "isAsciiLower c = (let n = (of_char c :: nat) in 97 \<le> n \<and> n \<le> 122)"

definition isupper :: "host \<Rightarrow> string \<Rightarrow> bool" where
  "isupper h s =
     (if list_all isAscii s then list_ex isAsciiUpper s \<and> \<not> list_ex isAsciiLower s
      else isupperNonAscii h s)"

text \<open>
  Modelled from the spec: the host's single-character notification primitive
  \<^verbatim>\<open>speech._getSpellingCharAddCapNotification\<close>, which is not part of this repository.
  Section 4.3: a pitch-shift-before / pitch-restore-after pair of directives wrapping
  the spoken character if pitch shifting applies; a leading "cap" spoken word if
  enabled; a short tone cue if enabled. The tone comes before the "cap" word, inside
  the pitch pair.
\<close>

definition spec_getSpellingCharAddCapNotification ::
    "string \<Rightarrow> bool \<Rightarrow> int \<Rightarrow> bool \<Rightarrow> speechSequence" where
  "spec_getSpellingCharAddCapNotification speakCharAs sayCap pitchChange beep =
     (if pitchChange \<noteq> 0 then [PitchCommand pitchChange] else [])
     @ (if beep then [BeepCommand 2000 50] else [])
     @ (if sayCap then [Text ''cap''] else [])
     @ [Text speakCharAs]
     @ (if pitchChange \<noteq> 0 then [PitchCommand 0] else [])"

subsection \<open>Speech for a single character\<close>

text \<open>\<^verbatim>\<open>_getSingleCharSelectionSpeech\<close> (lines 59-107).\<close>

definition getSingleCharSelectionSpeech ::
    "host \<Rightarrow> string \<Rightarrow> string \<Rightarrow> string option \<Rightarrow> error + speechSequence" where
  "getSingleCharSelectionSpeech h char locale messageTemplate =
     (let template = (case messageTemplate of
                        None \<Rightarrow> gettext h ''%s selected''
                      | Some t \<Rightarrow> t)
      in case getSynth h of
           None \<Rightarrow>
             (let speakCharAs = processSpeechSymbol h locale char
              in buildSpeechFromTemplate template [Text speakCharAs])
         | Some synth \<Rightarrow>
             (case conf_speech h (name synth) of
                None \<Rightarrow> Inl KeyError
              | Some synthConfig \<Rightarrow>
                  (let pitchChange = (if PitchCommandClass \<in> supportedCommands synth
                                      then capPitchChange synthConfig else 0);
                       sayCap = sayCapForCapitals synthConfig;
                       beep = beepForCapitals synthConfig;
                       speakCharAs = processSpeechSymbol h locale char;
                       uppercase = isupper h char;
                       charSequence = getSpellingCharAddCapNotification h speakCharAs
                                        (uppercase \<and> sayCap)
                                        (if uppercase then pitchChange else 0)
                                        (uppercase \<and> beep)
                   in buildSpeechFromTemplate template charSequence)))"

subsection \<open>Speech output\<close>

text \<open>
  The calls into the host's speech module are recorded as events, in the order they are
  made: \<^verbatim>\<open>speak(seq, symbolLevel=None, priority)\<close>,
  \<^verbatim>\<open>speech.speakTextSelected(text, priority)\<close>,
  \<^verbatim>\<open>speech.speakSelectionMessage(message, text, priority)\<close> and
  \<^verbatim>\<open>speech.speakMessage(text, priority)\<close>. A run is the list of its events together
  with the exception that ended it, if one did.
\<close>

datatype spri = NORMAL | NEXT | NOW

datatype event =
  Speak speechSequence "spri option"
| SpeakTextSelected string "spri option"
| SpeakSelectionMessage string string "spri option"
| SpeakMessage string "spri option"

type_synonym run = "event list \<times> error option"

text \<open>Sequencing: the second run happens only when the first one did not raise.\<close>

definition andThen :: "run \<Rightarrow> run \<Rightarrow> run" where
  "andThen r1 r2 = (case snd r1 of
                      Some e \<Rightarrow> r1
                    | None \<Rightarrow> (fst r1 @ fst r2, snd r2))"

text \<open>\<^verbatim>\<open>_speakSingleCharSelected\<close> (lines 110-123).\<close>

definition speakSingleCharSelected :: "host \<Rightarrow> string \<Rightarrow> string \<Rightarrow> spri option \<Rightarrow> run" where
  "speakSingleCharSelected h char locale priority =
     (case getSingleCharSelectionSpeech h char locale None of
        Inl e \<Rightarrow> ([], Some e)
      | Inr seq \<Rightarrow> (if seq \<noteq> [] then [Speak seq priority] else [], None))"

text \<open>\<^verbatim>\<open>_speakSingleCharUnselected\<close> (lines 126-140).\<close>

definition speakSingleCharUnselected :: "host \<Rightarrow> string \<Rightarrow> string \<Rightarrow> spri option \<Rightarrow> run" where
  "speakSingleCharUnselected h char locale priority =
     (case getSingleCharSelectionSpeech h char locale (Some (gettext h ''%s unselected'')) of
        Inl e \<Rightarrow> ([], Some e)
      | Inr seq \<Rightarrow> (if seq \<noteq> [] then [Speak seq priority] else [], None))"

subsection \<open>Text position intervals\<close>

text \<open>
  Modelled from the spec: the host's text-position interval
  (\<^verbatim>\<open>textInfos.TextInfo\<close>), which is not part of this repository. Section 3: a span
  within a document, with a collapsed check, the four endpoint comparisons (each
  negative, zero or positive), a copy, the clamping of one endpoint to an endpoint of
  another interval, and the covered text. The span is a pair of offsets into the
  document's text; the covered text is the Python slice \<^verbatim>\<open>document[start:end]\<close>.
\<close>

record textInfo =
  document :: string
  startOffset :: nat
  endOffset :: nat

datatype endPoints = StartToStart | StartToEnd | EndToStart | EndToEnd

definition isCollapsed :: "textInfo \<Rightarrow> bool" where
  "isCollapsed self = (startOffset self = endOffset self)"

definition compareEndPoints :: "textInfo \<Rightarrow> textInfo \<Rightarrow> endPoints \<Rightarrow> int" where
  "compareEndPoints self other which =
     sgn (case which of
            StartToStart \<Rightarrow> int (startOffset self) - int (startOffset other)
          | StartToEnd \<Rightarrow> int (startOffset self) - int (endOffset other)
          | EndToStart \<Rightarrow> int (endOffset self) - int (startOffset other)
          | EndToEnd \<Rightarrow> int (endOffset self) - int (endOffset other))"

definition copy :: "textInfo \<Rightarrow> textInfo" where
  "copy self = self"

definition setEndPoint :: "textInfo \<Rightarrow> textInfo \<Rightarrow> endPoints \<Rightarrow> textInfo" where
  "setEndPoint self other which =
     (case which of
        StartToStart \<Rightarrow> self\<lparr>startOffset := startOffset other\<rparr>
      | StartToEnd \<Rightarrow> self\<lparr>startOffset := endOffset other\<rparr>
      | EndToStart \<Rightarrow> self\<lparr>endOffset := startOffset other\<rparr>
      | EndToEnd \<Rightarrow> self\<lparr>endOffset := endOffset other\<rparr>)"

definition slice :: "string \<Rightarrow> nat \<Rightarrow> nat \<Rightarrow> string" where
  "slice s i j = take (j - i) (drop i s)"

definition infoText :: "textInfo \<Rightarrow> string" where
  "infoText self = slice (document self) (startOffset self) (endOffset self)"

subsection \<open>The patched selection announcement\<close>

text \<open>
  \<^verbatim>\<open>_patchedSpeakSelectionChange\<close>, lines 164-194: the two lists
  \<^verbatim>\<open>selectedTextList\<close> and \<^verbatim>\<open>unselectedTextList\<close> as they stand at line 196.
\<close>

definition selectionDiff ::
    "textInfo \<Rightarrow> textInfo \<Rightarrow> bool \<Rightarrow> bool \<Rightarrow> string list \<times> string list" where
  "selectionDiff oldInfo newInfo speakSelected speakUnselected =
     (let startToStart = compareEndPoints newInfo oldInfo StartToStart;
          startToEnd = compareEndPoints newInfo oldInfo StartToEnd;
          endToStart = compareEndPoints newInfo oldInfo EndToStart;
          endToEnd = compareEndPoints newInfo oldInfo EndToEnd
      in if speakSelected \<and> isCollapsed oldInfo then ([infoText newInfo], [])
         else if speakUnselected \<and> isCollapsed newInfo then ([], [infoText oldInfo])
         else if startToEnd > 0 \<or> endToStart < 0 then
           ((if speakSelected \<and> \<not> isCollapsed newInfo then [infoText newInfo] else []),
            (if speakUnselected \<and> \<not> isCollapsed oldInfo then [infoText oldInfo] else []))
         else
           ((if speakSelected \<and> startToStart < 0 \<and> \<not> isCollapsed newInfo
             then [infoText (setEndPoint (copy newInfo) oldInfo EndToStart)] else [])
            @ (if speakSelected \<and> endToEnd > 0 \<and> \<not> isCollapsed newInfo
               then [infoText (setEndPoint (copy newInfo) oldInfo StartToEnd)] else []),
            (if startToStart > 0 \<and> \<not> isCollapsed oldInfo
             then [infoText (setEndPoint (copy oldInfo) newInfo EndToStart)] else [])
            @ (if endToEnd < 0 \<and> \<not> isCollapsed oldInfo
               then [infoText (setEndPoint (copy oldInfo) newInfo StartToEnd)] else [])))"

text \<open>Lines 201-204 and 207-210: one selected text.\<close>

definition speakOneSelected :: "host \<Rightarrow> string \<Rightarrow> spri option \<Rightarrow> string \<Rightarrow> run" where
  "speakOneSelected h locale priority txt =
     (if length txt = 1 then speakSingleCharSelected h txt locale priority
      else ([SpeakTextSelected txt priority], None))"

text \<open>Lines 200-204: the loop over \<^verbatim>\<open>selectedTextList\<close>.\<close>

fun speakEachSelected :: "host \<Rightarrow> string \<Rightarrow> spri option \<Rightarrow> string list \<Rightarrow> run" where
  "speakEachSelected h locale priority [] = ([], None)"
| "speakEachSelected h locale priority (txt # rest) =
     andThen (speakOneSelected h locale priority txt)
             (speakEachSelected h locale priority rest)"

text \<open>Lines 198-210.\<close>

definition announceSelected ::
    "host \<Rightarrow> textInfo \<Rightarrow> string \<Rightarrow> bool \<Rightarrow> bool \<Rightarrow> spri option \<Rightarrow> string list \<Rightarrow> run" where
  "announceSelected h newInfo locale speakSelected generalize priority selectedTextList =
     (if speakSelected then
        (if \<not> generalize then speakEachSelected h locale priority selectedTextList
         else if length selectedTextList > 0
              then speakOneSelected h locale priority (infoText newInfo)
              else ([], None))
      else ([], None))"

text \<open>Lines 215-219: one unselected text.\<close>

definition speakOneUnselected :: "host \<Rightarrow> string \<Rightarrow> spri option \<Rightarrow> string \<Rightarrow> run" where
  "speakOneUnselected h locale priority txt =
     (if length txt = 1 then speakSingleCharUnselected h txt locale priority
      else ([SpeakSelectionMessage (gettext h ''%s unselected'') txt priority], None))"

text \<open>Lines 214-219: the loop over \<^verbatim>\<open>unselectedTextList\<close>.\<close>

fun speakEachUnselected :: "host \<Rightarrow> string \<Rightarrow> spri option \<Rightarrow> string list \<Rightarrow> run" where
  "speakEachUnselected h locale priority [] = ([], None)"
| "speakEachUnselected h locale priority (txt # rest) =
     andThen (speakOneUnselected h locale priority txt)
             (speakEachUnselected h locale priority rest)"

text \<open>Lines 212-231.\<close>

definition announceUnselected ::
    "host \<Rightarrow> textInfo \<Rightarrow> string \<Rightarrow> bool \<Rightarrow> bool \<Rightarrow> spri option \<Rightarrow> string list \<Rightarrow> run" where
  "announceUnselected h newInfo locale speakUnselected generalize priority unselectedTextList =
     (if speakUnselected then
        (if \<not> generalize then speakEachUnselected h locale priority unselectedTextList
         else if length unselectedTextList > 0 then
           (if \<not> isCollapsed newInfo then
              (let txt = infoText newInfo
               in if length txt = 1 then speakSingleCharUnselected h txt locale priority
                  else ([SpeakSelectionMessage (gettext h ''%s selected instead'') txt priority],
                        None))
            else ([SpeakMessage (gettext h ''selection removed'') priority], None))
         else ([], None))
      else ([], None))"

text \<open>
  \<^verbatim>\<open>_patchedSpeakSelectionChange\<close> (lines 143-231). The function returns nothing;
  the model gives the two local lists as they are when the function ends, the calls it
  made into the host's speech module, and the exception it ended with, if any.
\<close>

record outcome =
  selectedTextList :: "string list"
  unselectedTextList :: "string list"
  spoken :: "event list"
  raised :: "error option"

definition patchedSpeakSelectionChange ::
    "host \<Rightarrow> textInfo \<Rightarrow> textInfo \<Rightarrow> bool \<Rightarrow> bool \<Rightarrow> bool \<Rightarrow> spri option \<Rightarrow> outcome" where
  "patchedSpeakSelectionChange h oldInfo newInfo speakSelected speakUnselected generalize priority =
     (if isCollapsed newInfo \<and> isCollapsed oldInfo
      then \<lparr>selectedTextList = [], unselectedTextList = [], spoken = [], raised = None\<rparr>
      else
        (let lists = selectionDiff oldInfo newInfo speakSelected speakUnselected;
             locale = getCurrentLanguage h;
             r = andThen
                   (announceSelected h newInfo locale speakSelected generalize priority (fst lists))
                   (announceUnselected h newInfo locale speakUnselected generalize priority
                      (snd lists))
         in \<lparr>selectedTextList = fst lists, unselectedTextList = snd lists,
             spoken = fst r, raised = snd r\<rparr>))"

subsection \<open>Installation and removal\<close>

text \<open>
  The process-wide state the plugin writes: the host's entry point
  \<^verbatim>\<open>speech.speakSelectionChange\<close> and the module's global
  \<^verbatim>\<open>_originalSpeakSelectionChange\<close>, which is \<^verbatim>\<open>None\<close> when the module is loaded.
  The calls to the base class (\<^verbatim>\<open>super().__init__\<close>, \<^verbatim>\<open>super().terminate\<close>) are
  the host's and write neither of the two.
\<close>

datatype handler =
  HostSpeakSelectionChange
| PatchedSpeakSelectionChange
| OtherHandler nat

record dispatch =
  speakSelectionChange :: handler
  originalSpeakSelectionChange :: "handler option"

text \<open>\<^verbatim>\<open>GlobalPlugin.__init__\<close> (lines 237-241).\<close>

definition GlobalPlugin_init :: "dispatch \<Rightarrow> dispatch" where
  "GlobalPlugin_init st =
     (let st1 = st\<lparr>originalSpeakSelectionChange := Some (speakSelectionChange st)\<rparr>
      in st1\<lparr>speakSelectionChange := PatchedSpeakSelectionChange\<rparr>)"

text \<open>\<^verbatim>\<open>GlobalPlugin.terminate\<close> (lines 243-248).\<close>

definition GlobalPlugin_terminate :: "dispatch \<Rightarrow> dispatch" where
  "GlobalPlugin_terminate st =
     (case originalSpeakSelectionChange st of
        Some original \<Rightarrow>
          (let st1 = st\<lparr>speakSelectionChange := original\<rparr>
           in st1\<lparr>originalSpeakSelectionChange := None\<rparr>)
      | None \<Rightarrow> st)"

text \<open>The state when the module has been loaded and no plugin instance created.\<close>

definition moduleLoaded :: "handler \<Rightarrow> dispatch" where
  "moduleLoaded f = \<lparr>speakSelectionChange = f, originalSpeakSelectionChange = None\<rparr>"

subsection \<open>Concrete inputs\<close>

text \<open>
  \<^verbatim>\<open>str.isupper\<close> of an interpreter on the characters up to U+00FF: the uppercase
  characters are \<open>A\<close> to \<open>Z\<close>, U+00C0 to U+00D6 and U+00D8 to U+00DE; the lowercase
  ones are \<open>a\<close> to \<open>z\<close>, U+00AA, U+00B5, U+00BA, U+00DF to U+00F6 and U+00F8 to
  U+00FF.
\<close>

definition latin1Upper :: "char \<Rightarrow> bool" where
  "latin1Upper c =
     (let n = (of_char c :: nat)
      in (65 \<le> n \<and> n \<le> 90) \<or> (192 \<le> n \<and> n \<le> 214) \<or> (216 \<le> n \<and> n \<le> 222))"

definition latin1Lower :: "char \<Rightarrow> bool" where
  "latin1Lower c =
     (let n = (of_char c :: nat)
      in (97 \<le> n \<and> n \<le> 122) \<or> n = 170 \<or> n = 181 \<or> n = 186
         \<or> (223 \<le> n \<and> n \<le> 246) \<or> (248 \<le> n \<and> n \<le> 255))"

definition latin1_isupper :: "string \<Rightarrow> bool" where
  "latin1_isupper s = (list_ex latin1Upper s \<and> \<not> list_ex latin1Lower s)"

text \<open>
  A host with an active synthesizer that has no pitch command, "say cap" switched on
  and the beep switched off; symbols are spoken as they are written, messages are
  not translated, and the interpreter's \<^verbatim>\<open>str.isupper\<close> is the one above.
\<close>

definition exampleSynth :: synthDriver where
  "exampleSynth = \<lparr>name = ''espeak'', supportedCommands = {BeepCommandClass}\<rparr>"

definition exampleConfig :: synthConfig where
  "exampleConfig = \<lparr>capPitchChange = 30, sayCapForCapitals = True, beepForCapitals = False\<rparr>"

definition quietConfig :: synthConfig where
  "quietConfig = \<lparr>capPitchChange = 0, sayCapForCapitals = False, beepForCapitals = False\<rparr>"

definition exampleHost :: host where
  "exampleHost =
     \<lparr>getSynth = Some exampleSynth,
      conf_speech = [''espeak'' \<mapsto> exampleConfig],
      processSpeechSymbol = (\<lambda>locale symbol. symbol),
      getSpellingCharAddCapNotification = spec_getSpellingCharAddCapNotification,
      gettext = (\<lambda>message. message),
      getCurrentLanguage = ''en'',
      isupperNonAscii = latin1_isupper\<rparr>"

text \<open>The same host with every capitalization cue switched off.\<close>

definition quietHost :: host where
  "quietHost = exampleHost\<lparr>conf_speech := [''espeak'' \<mapsto> quietConfig]\<rparr>"

text \<open>The same host with no active synthesizer.\<close>

definition noSynthHost :: host where
  "noSynthHost = exampleHost\<lparr>getSynth := None\<rparr>"

text \<open>The interval from offset \<open>i\<close> to offset \<open>j\<close> of the document \<open>abcdefg\<close>.\<close>

definition exampleInfo :: "nat \<Rightarrow> nat \<Rightarrow> textInfo" where
  "exampleInfo i j = \<lparr>document = ''abcdefg'', startOffset = i, endOffset = j\<rparr>"

section \<open>The selection diff\<close>

lemma selectionDiff_nonoverlap:
  assumes "\<not> isCollapsed P" "\<not> isCollapsed C"
    and "endOffset P < startOffset C \<or> endOffset C < startOffset P"
  shows "selectionDiff P C True True = ([infoText C], [infoText P])"
  using assms by (auto simp: selectionDiff_def compareEndPoints_def Let_def)

text \<open>
  Claim C1. When the previous interval \<open>P\<close> and the current interval \<open>C\<close> are both
  non-collapsed and do not overlap (\<open>C\<close> starts strictly after the end of \<open>P\<close>, or ends
  strictly before its start) and both speak flags are true, the selected list is
  exactly the whole text of \<open>C\<close> and the unselected list is exactly the whole text of
  \<open>P\<close>.
\<close>

theorem nonoverlapping_full_replacement:
  assumes "\<not> isCollapsed P" "\<not> isCollapsed C"
    and "endOffset P < startOffset C \<or> endOffset C < startOffset P"
  shows "selectedTextList (patchedSpeakSelectionChange h P C True True generalize priority)
           = [infoText C]
       \<and> unselectedTextList (patchedSpeakSelectionChange h P C True True generalize priority)
           = [infoText P]"
  using assms(1,2) selectionDiff_nonoverlap[OF assms]
  by (simp add: patchedSpeakSelectionChange_def Let_def)

theorem nonoverlapping_full_replacement_witness:
  "\<not> isCollapsed (exampleInfo 0 2) \<and> \<not> isCollapsed (exampleInfo 3 5)
   \<and> endOffset (exampleInfo 0 2) < startOffset (exampleInfo 3 5)
   \<and> selectedTextList (patchedSpeakSelectionChange exampleHost
         (exampleInfo 0 2) (exampleInfo 3 5) True True False None) = [''de'']
   \<and> unselectedTextList (patchedSpeakSelectionChange exampleHost
         (exampleInfo 0 2) (exampleInfo 3 5) True True False None) = [''ab'']"
  using nonoverlapping_full_replacement
          [of "exampleInfo 0 2" "exampleInfo 3 5" exampleHost False None]
  by (simp add: exampleInfo_def isCollapsed_def infoText_def slice_def)

lemma selectionDiff_nested:
  assumes "\<not> isCollapsed P" "startOffset P \<le> endOffset P"
    and "startOffset C < startOffset P" "endOffset P < endOffset C"
  shows "selectionDiff P C True True =
           ([slice (document C) (startOffset C) (startOffset P),
             slice (document C) (endOffset P) (endOffset C)], [])"
  using assms
  by (auto simp: selectionDiff_def compareEndPoints_def Let_def isCollapsed_def
        setEndPoint_def copy_def infoText_def)

text \<open>
  Claim C2. When the previous interval \<open>P\<close> is a non-collapsed interval (its start is
  not after its end) and the current interval \<open>C\<close> extends it strictly on both sides,
  with both speak flags true and generalize false, the selected list has exactly two
  spans, the part of \<open>C\<close> before the start of \<open>P\<close> and the part of \<open>C\<close> after the end
  of \<open>P\<close>, and the unselected list is empty.
\<close>

theorem nested_extension_two_selected_spans:
  assumes "\<not> isCollapsed P" "startOffset P \<le> endOffset P"
    and "startOffset C < startOffset P" "endOffset P < endOffset C"
  shows "selectedTextList (patchedSpeakSelectionChange h P C True True False priority) =
           [slice (document C) (startOffset C) (startOffset P),
            slice (document C) (endOffset P) (endOffset C)]
       \<and> unselectedTextList (patchedSpeakSelectionChange h P C True True False priority) = []"
  using assms(1) selectionDiff_nested[OF assms]
  by (simp add: patchedSpeakSelectionChange_def Let_def)

theorem nested_extension_two_selected_spans_witness:
  "\<not> isCollapsed (exampleInfo 3 4)
   \<and> startOffset (exampleInfo 3 4) \<le> endOffset (exampleInfo 3 4)
   \<and> startOffset (exampleInfo 2 5) < startOffset (exampleInfo 3 4)
   \<and> endOffset (exampleInfo 3 4) < endOffset (exampleInfo 2 5)
   \<and> selectedTextList (patchedSpeakSelectionChange exampleHost
         (exampleInfo 3 4) (exampleInfo 2 5) True True False None) = [''c'', ''e'']
   \<and> unselectedTextList (patchedSpeakSelectionChange exampleHost
         (exampleInfo 3 4) (exampleInfo 2 5) True True False None) = []"
  using nested_extension_two_selected_spans
          [of "exampleInfo 3 4" "exampleInfo 2 5" exampleHost None]
  by (simp add: exampleInfo_def isCollapsed_def slice_def)

text \<open>
  Claim C3. When the previous and the current interval are both collapsed, the
  function ends with both lists empty, without a call into the speech module and
  without an exception, whatever the three flags are.
\<close>

theorem both_collapsed_silent:
  assumes "isCollapsed P" "isCollapsed C"
  shows "patchedSpeakSelectionChange h P C speakSelected speakUnselected generalize priority =
           \<lparr>selectedTextList = [], unselectedTextList = [], spoken = [], raised = None\<rparr>"
  using assms by (simp add: patchedSpeakSelectionChange_def)

theorem both_collapsed_silent_witness:
  "isCollapsed (exampleInfo 1 1) \<and> isCollapsed (exampleInfo 4 4)
   \<and> patchedSpeakSelectionChange exampleHost (exampleInfo 1 1) (exampleInfo 4 4)
        True True True None =
           \<lparr>selectedTextList = [], unselectedTextList = [], spoken = [], raised = None\<rparr>"
  using both_collapsed_silent
          [of "exampleInfo 1 1" "exampleInfo 4 4" exampleHost True True True None]
  by (simp add: exampleInfo_def isCollapsed_def)

text \<open>
  What lines 220-224 do in general: in generalize mode, when something was unselected
  and the new selection is a single character, the character goes through
  \<^verbatim>\<open>_speakSingleCharUnselected\<close>.
\<close>

lemma announceUnselected_generalize_single_char:
  assumes "unselected \<noteq> []" "\<not> isCollapsed newInfo"
    and "length (infoText newInfo) = 1"
  shows "announceUnselected h newInfo locale True True priority unselected =
           speakSingleCharUnselected h (infoText newInfo) locale priority"
  using assms by (simp add: announceUnselected_def)

text \<open>
  Claim C4. In generalize mode, when the previous selection \<open>a\<close> is replaced by the
  one-character selection \<open>c\<close>, the function speaks the character through the
  "%s unselected" template, so that \<open>c unselected\<close> is spoken and "%s selected instead"
  is not used; when it is replaced by the two-character selection \<open>cd\<close>, the sibling
  branch speaks \<open>cd\<close> with the "%s selected instead" message.
\<close>

theorem replaced_single_char_spoken_as_unselected:
  "patchedSpeakSelectionChange exampleHost (exampleInfo 0 1) (exampleInfo 2 3)
       False True True None =
     \<lparr>selectedTextList = [], unselectedTextList = [''a''],
      spoken = [Speak [Text ''c'', Text '' unselected''] None], raised = None\<rparr>
   \<and> patchedSpeakSelectionChange exampleHost (exampleInfo 0 1) (exampleInfo 2 4)
       False True True None =
     \<lparr>selectedTextList = [], unselectedTextList = [''a''],
      spoken = [SpeakSelectionMessage ''%s selected instead'' ''cd'' None], raised = None\<rparr>"
  by (simp add: patchedSpeakSelectionChange_def selectionDiff_def compareEndPoints_def
        isCollapsed_def exampleInfo_def infoText_def slice_def Let_def andThen_def
        announceSelected_def announceUnselected_def speakSingleCharUnselected_def
        getSingleCharSelectionSpeech_def exampleHost_def exampleSynth_def exampleConfig_def
        isupper_def isAscii_def isAsciiUpper_def isAsciiLower_def
        spec_getSpellingCharAddCapNotification_def buildSpeechFromTemplate_def)

section \<open>Template substitution\<close>

lemma startsWith_append: "startsWith p s \<Longrightarrow> s = p @ drop (length p) s"
  by (induction p s rule: startsWith.induct) auto

lemma split1_contains:
  "sub \<noteq> [] \<Longrightarrow> strContains sub t \<Longrightarrow>
     \<exists>b a. split1 sub t = [b, a] \<and> t = b @ sub @ a"
proof (induction t)
  case Nil
  then show ?case by (cases sub) auto
next
  case (Cons c cs)
  show ?case
  proof (cases "startsWith sub (c # cs)")
    case True
    then show ?thesis using startsWith_append[OF True] by simp
  next
    case False
    with Cons.prems have "strContains sub cs" by simp
    with Cons.IH Cons.prems obtain b a where "split1 sub cs = [b, a]" "cs = b @ sub @ a"
      by blast
    with False show ?thesis by simp
  qed
qed

lemma buildSpeechFromTemplate_placeholder:
  assumes "strContains ''%s'' template"
  shows "\<exists>b a. template = b @ ''%s'' @ a \<and> split1 ''%s'' template = [b, a]
           \<and> buildSpeechFromTemplate template charSequence =
               Inr ((if b \<noteq> [] then [Text b] else []) @ charSequence
                    @ (if a \<noteq> [] then [Text a] else []))"
proof -
  obtain b a where "split1 ''%s'' template = [b, a]" "template = b @ ''%s'' @ a"
    using split1_contains[of "''%s''" template] assms by auto
  with assms show ?thesis by (simp add: buildSpeechFromTemplate_def)
qed

lemma buildSpeechFromTemplate_total:
  "\<exists>seq. buildSpeechFromTemplate template charSequence = Inr seq"
proof (cases "strContains ''%s'' template")
  case True
  from buildSpeechFromTemplate_placeholder[OF True] show ?thesis by blast
next
  case False
  then show ?thesis by (simp add: buildSpeechFromTemplate_def)
qed

lemma buildSpeechFromTemplate_texts:
  assumes "buildSpeechFromTemplate template charSequence = Inr seq"
    and "list_all isText charSequence"
  shows "list_all isText seq"
proof (cases "strContains ''%s'' template")
  case True
  from buildSpeechFromTemplate_placeholder[OF True, of charSequence] assms
  show ?thesis by auto
next
  case False
  with assms show ?thesis by (auto simp: buildSpeechFromTemplate_def)
qed

lemma startsWith_self: "startsWith p (p @ r)"
  by (induction p) auto

lemma strContains_occurrence: "strContains sub (b @ sub @ a)"
proof (induction b)
  case Nil
  show ?case by (cases "sub @ a") (use startsWith_self[of sub a] in auto)
next
  case (Cons c b)
  then show ?case by simp
qed

text \<open>
  \<^verbatim>\<open>sub in t\<close> says that \<open>t\<close> has an occurrence of \<open>sub\<close>.
\<close>

lemma strContains_iff: "strContains sub t \<longleftrightarrow> (\<exists>b a. t = b @ sub @ a)"
proof
  assume c: "strContains sub t"
  show "\<exists>b a. t = b @ sub @ a"
  proof (cases "sub = []")
    case True
    then have "t = [] @ sub @ t" by simp
    then show ?thesis by blast
  next
    case False
    from split1_contains[OF False c] show ?thesis by blast
  qed
next
  assume "\<exists>b a. t = b @ sub @ a"
  then show "strContains sub t" using strContains_occurrence by blast
qed

text \<open>
  The cut of \<^verbatim>\<open>split("%s", 1)\<close> is at the leftmost placeholder: the one with no
  placeholder before it.
\<close>

lemma split1_leftmost:
  "\<not> strContains ''%s'' b \<Longrightarrow> split1 ''%s'' (b @ ''%s'' @ a) = [b, a]"
proof (induction b)
  case Nil
  show ?case by simp
next
  case (Cons c b)
  then have "\<not> startsWith ''%s'' (c # b)" and nb: "\<not> strContains ''%s'' b" by simp_all
  then have "\<not> startsWith ''%s'' (c # b @ ''%s'' @ a)" by (cases b) auto
  with Cons.IH[OF nb] show ?case by simp
qed

lemma buildSpeechFromTemplate_leftmost:
  assumes "\<not> strContains ''%s'' b"
  shows "buildSpeechFromTemplate (b @ ''%s'' @ a) charSequence =
           Inr ((if b \<noteq> [] then [Text b] else []) @ charSequence
                @ (if a \<noteq> [] then [Text a] else []))"
  using split1_leftmost[OF assms, of a] strContains_occurrence[of "''%s''" b a]
  by (simp add: buildSpeechFromTemplate_def)

lemma count_pos_contains: "0 < spec_countPlaceholder t \<Longrightarrow> strContains ''%s'' t"
  by (induction t) (auto split: if_splits)

lemma replace_no_occurrence: "spec_countPlaceholder t = 0 \<Longrightarrow> spec_replacePlaceholder t s = t"
  by (induction t s rule: spec_replacePlaceholder.induct) (auto split: if_splits)

lemma split1_first:
  "split1 ''%s'' t = [b, a] \<Longrightarrow>
     spec_replacePlaceholder t s = b @ s @ spec_replacePlaceholder a s
   \<and> spec_countPlaceholder t = 1 + spec_countPlaceholder a"
proof (induction t arbitrary: b)
  case Nil
  then show ?case by simp
next
  case (Cons c cs)
  show ?case
  proof (cases "startsWith ''%s'' (c # cs)")
    case True
    then obtain r where cs: "cs = CHR ''s'' # r" and c: "c = CHR ''%''"
      by (cases cs) auto
    from True Cons.prems have "b = []" "a = r" using cs by auto
    then show ?thesis using cs c by simp
  next
    case False
    with Cons.prems obtain b' where "split1 ''%s'' cs = [b', a]" "b = c # b'"
      by (auto split: list.splits)
    with Cons.IH False show ?thesis by auto
  qed
qed

lemma spokenText_append: "spokenText (xs @ ys) = spokenText xs @ spokenText ys"
  by (induction xs rule: spokenText.induct) auto

text \<open>
  Claim C7. For every template \<open>T\<close> in which "%s" occurs exactly once and every
  one-string sequence \<open>[s]\<close>, the template substitution returns a sequence (no
  exception) whose string segments, concatenated, are \<open>T\<close> with its "%s" replaced by
  \<open>s\<close>; substituting the literal "%s" gives \<open>T\<close> back.
\<close>

theorem template_round_trip:
  assumes "spec_countPlaceholder T = 1"
  shows "(\<exists>seq. buildSpeechFromTemplate T [Text s] = Inr seq
                \<and> spokenText seq = spec_replacePlaceholder T s)
       \<and> (\<exists>seq. buildSpeechFromTemplate T [Text ''%s''] = Inr seq \<and> spokenText seq = T)"
proof -
  from assms have c: "strContains ''%s'' T" by (simp add: count_pos_contains)
  obtain b a where T: "T = b @ ''%s'' @ a" and sp: "split1 ''%s'' T = [b, a]"
    using buildSpeechFromTemplate_placeholder[OF c] by blast
  have build_eq: "buildSpeechFromTemplate T cs =
      Inr ((if b \<noteq> [] then [Text b] else []) @ cs @ (if a \<noteq> [] then [Text a] else []))" for cs
    using c sp by (simp add: buildSpeechFromTemplate_def)
  from split1_first[OF sp, of s] assms
  have repl: "spec_replacePlaceholder T s = b @ s @ a"
    by (simp add: replace_no_occurrence)
  have spoken_eq: "spokenText ((if b \<noteq> [] then [Text b] else []) @ [Text x]
               @ (if a \<noteq> [] then [Text a] else [])) = b @ x @ a" for x
    by (simp add: spokenText_append)
  show ?thesis
    unfolding build_eq using repl spoken_eq[of s] spoken_eq[of "''%s''"] T by simp
qed

theorem template_round_trip_witness:
  "spec_countPlaceholder ''%s selected'' = 1
   \<and> buildSpeechFromTemplate ''%s selected'' [Text ''A''] = Inr [Text ''A'', Text '' selected'']
   \<and> spokenText [Text ''A'', Text '' selected''] = spec_replacePlaceholder ''%s selected'' ''A''
   \<and> spec_replacePlaceholder ''%s selected'' ''A'' = ''A selected''
   \<and> buildSpeechFromTemplate ''%s selected'' [Text ''%s''] = Inr [Text ''%s'', Text '' selected'']
   \<and> spokenText [Text ''%s'', Text '' selected''] = ''%s selected''"
  using template_round_trip[of "''%s selected''" "''A''"]
  by (simp add: buildSpeechFromTemplate_def)

section \<open>Speech for a single character\<close>

text \<open>
  Claim C5. For the character "A", with an active synthesizer that has no pitch
  command, "say cap" switched on, the untranslated template "%s selected" and "A"
  spoken as "A", the speech sequence is the host's cap notification of "A" (called
  with cap true and pitch offset 0) spliced into "%s selected". For the cap
  notification of section 4.3 this is the "cap" segment, then "A", then " selected",
  after the beep command when the beep is switched on; and this sequence is what
  \<^verbatim>\<open>_speakSingleCharSelected\<close> hands to \<^verbatim>\<open>speak\<close>.
\<close>

theorem capital_selected_speech:
  assumes "getSynth h = Some synth" "conf_speech h (name synth) = Some cfg"
    and "sayCapForCapitals cfg" "PitchCommandClass \<notin> supportedCommands synth"
    and "gettext h ''%s selected'' = ''%s selected''"
    and "processSpeechSymbol h locale ''A'' = ''A''"
  shows "getSingleCharSelectionSpeech h ''A'' locale None =
           buildSpeechFromTemplate ''%s selected''
             (getSpellingCharAddCapNotification h ''A'' True 0 (beepForCapitals cfg))
       \<and> (getSpellingCharAddCapNotification h = spec_getSpellingCharAddCapNotification \<longrightarrow>
            getSingleCharSelectionSpeech h ''A'' locale None =
              Inr ((if beepForCapitals cfg then [BeepCommand 2000 50] else [])
                   @ [Text ''cap'', Text ''A'', Text '' selected''])
          \<and> speakSingleCharSelected h ''A'' locale priority =
              ([Speak ((if beepForCapitals cfg then [BeepCommand 2000 50] else [])
                       @ [Text ''cap'', Text ''A'', Text '' selected'']) priority], None))"
proof -
  have up: "isupper h ''A''"
    by (simp add: isupper_def isAscii_def isAsciiUpper_def isAsciiLower_def)
  have first: "getSingleCharSelectionSpeech h ''A'' locale None =
           buildSpeechFromTemplate ''%s selected''
             (getSpellingCharAddCapNotification h ''A'' True 0 (beepForCapitals cfg))"
    using assms up by (simp add: getSingleCharSelectionSpeech_def Let_def)
  have tmpl: "buildSpeechFromTemplate ''%s selected'' cs = Inr (cs @ [Text '' selected''])" for cs
    by (simp add: buildSpeechFromTemplate_def)
  show ?thesis
    unfolding first tmpl
    by (simp add: spec_getSpellingCharAddCapNotification_def speakSingleCharSelected_def first tmpl)
qed

theorem capital_selected_speech_witness:
  "getSynth exampleHost = Some exampleSynth
   \<and> conf_speech exampleHost (name exampleSynth) = Some exampleConfig
   \<and> sayCapForCapitals exampleConfig
   \<and> PitchCommandClass \<notin> supportedCommands exampleSynth
   \<and> gettext exampleHost ''%s selected'' = ''%s selected''
   \<and> processSpeechSymbol exampleHost ''en'' ''A'' = ''A''
   \<and> getSpellingCharAddCapNotification exampleHost = spec_getSpellingCharAddCapNotification
   \<and> getSingleCharSelectionSpeech exampleHost ''A'' ''en'' None =
        Inr [Text ''cap'', Text ''A'', Text '' selected'']
   \<and> speakSingleCharSelected exampleHost ''A'' ''en'' None =
        ([Speak [Text ''cap'', Text ''A'', Text '' selected''] None], None)"
  using capital_selected_speech[of exampleHost exampleSynth exampleConfig "''en''" None]
  by (simp add: exampleHost_def exampleSynth_def exampleConfig_def
        buildSpeechFromTemplate_def spec_getSpellingCharAddCapNotification_def)

text \<open>
  Claim C6. For the lowercase character "b", with an active synthesizer and the three
  capitalization cues off (no "say cap", no beep, pitch change 0), the untranslated
  template "%s unselected" and "b" spoken as "b", \<^verbatim>\<open>_speakSingleCharUnselected\<close>
  makes exactly one call to \<^verbatim>\<open>speak\<close>, with the segments "b" and " unselected" and no
  command: the phrase "b unselected".
\<close>

theorem lowercase_unselected_speech:
  assumes "getSynth h = Some synth" "conf_speech h (name synth) = Some cfg"
    and "\<not> sayCapForCapitals cfg" "\<not> beepForCapitals cfg" "capPitchChange cfg = 0"
    and "gettext h ''%s unselected'' = ''%s unselected''"
    and "processSpeechSymbol h locale ''b'' = ''b''"
    and "getSpellingCharAddCapNotification h = spec_getSpellingCharAddCapNotification"
  shows "speakSingleCharUnselected h ''b'' locale priority =
           ([Speak [Text ''b'', Text '' unselected''] priority], None)
       \<and> spokenText [Text ''b'', Text '' unselected''] = ''b unselected''"
proof -
  have low: "\<not> isupper h ''b''"
    by (simp add: isupper_def isAscii_def isAsciiUpper_def isAsciiLower_def)
  have tmpl: "buildSpeechFromTemplate ''%s unselected'' cs = Inr (cs @ [Text '' unselected''])" for cs
    by (simp add: buildSpeechFromTemplate_def)
  have "getSingleCharSelectionSpeech h ''b'' locale (Some ''%s unselected'') =
          Inr [Text ''b'', Text '' unselected'']"
    using assms low
    by (simp add: getSingleCharSelectionSpeech_def Let_def tmpl
          spec_getSpellingCharAddCapNotification_def)
  with assms(6) show ?thesis
    by (simp add: speakSingleCharUnselected_def)
qed

theorem lowercase_unselected_speech_witness:
  "getSynth quietHost = Some exampleSynth
   \<and> conf_speech quietHost (name exampleSynth) = Some quietConfig
   \<and> \<not> sayCapForCapitals quietConfig \<and> \<not> beepForCapitals quietConfig
   \<and> capPitchChange quietConfig = 0
   \<and> gettext quietHost ''%s unselected'' = ''%s unselected''
   \<and> processSpeechSymbol quietHost ''en'' ''b'' = ''b''
   \<and> getSpellingCharAddCapNotification quietHost = spec_getSpellingCharAddCapNotification
   \<and> speakSingleCharUnselected quietHost ''b'' ''en'' None =
           ([Speak [Text ''b'', Text '' unselected''] None], None)"
  using lowercase_unselected_speech[of quietHost exampleSynth quietConfig "''en''" None]
  by (simp add: quietHost_def exampleHost_def exampleSynth_def quietConfig_def)

text \<open>
  Claim C8. When there is no active synthesizer, building the speech of a single
  character does not raise, and its result is the locale-rendered character \<open>c\<close>
  spliced into the message template \<open>T\<close>: the sequence \<open>[c, T]\<close> when \<open>T\<close> has no
  placeholder, and otherwise the text before the leftmost placeholder (when not
  empty), then \<open>c\<close>, then the text after it (when not empty). Every item of the
  sequence is a string (no cap word, no pitch and no beep command), and the result is
  the same for every configuration, so the configuration is not read.
\<close>

theorem no_synth_plain_speech:
  assumes "getSynth h = None"
    and "T = (case messageTemplate of None \<Rightarrow> gettext h ''%s selected'' | Some t \<Rightarrow> t)"
    and "c = processSpeechSymbol h locale char"
  shows "(\<not> strContains ''%s'' T \<longrightarrow>
            getSingleCharSelectionSpeech h char locale messageTemplate
              = Inr [Text c, Text T])
       \<and> (T = b @ ''%s'' @ a \<and> \<not> strContains ''%s'' b \<longrightarrow>
            getSingleCharSelectionSpeech h char locale messageTemplate
              = Inr ((if b \<noteq> [] then [Text b] else []) @ [Text c]
                     @ (if a \<noteq> [] then [Text a] else [])))
       \<and> (\<exists>seq. getSingleCharSelectionSpeech h char locale messageTemplate = Inr seq
                 \<and> list_all isText seq)
       \<and> getSingleCharSelectionSpeech (h\<lparr>conf_speech := conf'\<rparr>) char locale messageTemplate
            = getSingleCharSelectionSpeech h char locale messageTemplate"
proof -
  have res: "getSingleCharSelectionSpeech h char locale messageTemplate =
               buildSpeechFromTemplate T [Text c]"
    using assms by (simp add: getSingleCharSelectionSpeech_def)
  have same: "getSingleCharSelectionSpeech (h\<lparr>conf_speech := conf'\<rparr>) char locale messageTemplate
                = buildSpeechFromTemplate T [Text c]"
    using assms by (cases messageTemplate) (simp_all add: getSingleCharSelectionSpeech_def)
  have plain: "\<not> strContains ''%s'' T \<Longrightarrow> buildSpeechFromTemplate T [Text c] = Inr [Text c, Text T]"
    by (simp add: buildSpeechFromTemplate_def)
  have spliced: "T = b @ ''%s'' @ a \<and> \<not> strContains ''%s'' b \<Longrightarrow>
                   buildSpeechFromTemplate T [Text c]
                     = Inr ((if b \<noteq> [] then [Text b] else []) @ [Text c]
                            @ (if a \<noteq> [] then [Text a] else []))"
    using buildSpeechFromTemplate_leftmost[of b a "[Text c]"] by simp
  obtain seq where seq: "buildSpeechFromTemplate T [Text c] = Inr seq"
    using buildSpeechFromTemplate_total by blast
  then have "list_all isText seq"
    by (rule buildSpeechFromTemplate_texts) simp
  with seq have texts: "\<exists>seq. buildSpeechFromTemplate T [Text c] = Inr seq \<and> list_all isText seq"
    by blast
  show ?thesis
    unfolding res same using plain spliced texts by blast
qed

theorem no_synth_plain_speech_witness:
  "getSynth noSynthHost = None
   \<and> \<not> strContains ''%s'' ''selected''
   \<and> getSingleCharSelectionSpeech noSynthHost ''A'' ''en'' (Some ''selected'')
       = Inr [Text ''A'', Text ''selected'']
   \<and> ''%s unselected'' = [] @ ''%s'' @ '' unselected'' \<and> \<not> strContains ''%s'' []
   \<and> getSingleCharSelectionSpeech noSynthHost ''A'' ''en'' (Some ''%s unselected'')
       = Inr [Text ''A'', Text '' unselected'']
   \<and> ''chose %s now'' = ''chose '' @ ''%s'' @ '' now'' \<and> \<not> strContains ''%s'' ''chose ''
   \<and> getSingleCharSelectionSpeech noSynthHost ''A'' ''en'' (Some ''chose %s now'')
       = Inr [Text ''chose '', Text ''A'', Text '' now'']
   \<and> getSingleCharSelectionSpeech (noSynthHost\<lparr>conf_speech := Map.empty\<rparr>) ''A'' ''en'' None
       = Inr [Text ''A'', Text '' selected'']"
  using no_synth_plain_speech
          [of noSynthHost "''selected''" "Some ''selected''" "''A''" "''en''" "''A''"
              "[]" "[]" Map.empty]
        no_synth_plain_speech
          [of noSynthHost "''%s unselected''" "Some ''%s unselected''" "''A''" "''en''" "''A''"
              "[]" "'' unselected''" Map.empty]
        no_synth_plain_speech
          [of noSynthHost "''chose %s now''" "Some ''chose %s now''" "''A''" "''en''" "''A''"
              "''chose ''" "'' now''" Map.empty]
        no_synth_plain_speech
          [of noSynthHost "''%s selected''" None "''A''" "''en''" "''A''"
              "[]" "'' selected''" Map.empty]
  by (simp add: noSynthHost_def exampleHost_def)

lemma isupper_conf_speech: "isupper (h\<lparr>conf_speech := cf\<rparr>) s = isupper h s"
  by (simp add: isupper_def)

text \<open>
  Claim C10. For a character whose \<^verbatim>\<open>isupper()\<close> is false (whatever the
  interpreter says of the characters outside ASCII) and an active synthesizer, the
  speech sequence does not depend on the three capitalization settings: replacing the
  synthesizer's settings by any others gives the same result, which is the host's cap
  notification called with cap false, pitch offset 0 and beep false, spliced into the
  template.
\<close>

theorem non_uppercase_ignores_cue_settings:
  assumes "getSynth h = Some synth" "\<not> isupper h char"
    and "conf_speech h (name synth) = Some cfg"
  shows "getSingleCharSelectionSpeech
           (h\<lparr>conf_speech := (conf_speech h)(name synth \<mapsto> cfg')\<rparr>) char locale messageTemplate
         = getSingleCharSelectionSpeech h char locale messageTemplate
       \<and> getSingleCharSelectionSpeech h char locale messageTemplate
         = buildSpeechFromTemplate
             (case messageTemplate of None \<Rightarrow> gettext h ''%s selected'' | Some t \<Rightarrow> t)
             (getSpellingCharAddCapNotification h (processSpeechSymbol h locale char)
                False 0 False)"
  using assms
  by (cases messageTemplate)
     (simp_all add: getSingleCharSelectionSpeech_def Let_def isupper_conf_speech)

theorem non_uppercase_ignores_cue_settings_witness:
  "getSynth exampleHost = Some exampleSynth \<and> \<not> isupper exampleHost ''b''
   \<and> conf_speech exampleHost (name exampleSynth) = Some exampleConfig
   \<and> getSingleCharSelectionSpeech
        (exampleHost\<lparr>conf_speech := (conf_speech exampleHost)(name exampleSynth \<mapsto> quietConfig)\<rparr>)
        ''b'' ''en'' None
      = getSingleCharSelectionSpeech exampleHost ''b'' ''en'' None
   \<and> getSingleCharSelectionSpeech exampleHost ''b'' ''en'' None
      = Inr [Text ''b'', Text '' selected'']"
  using non_uppercase_ignores_cue_settings
          [of exampleHost exampleSynth "''b''" exampleConfig quietConfig "''en''" None]
  by (simp add: exampleHost_def exampleSynth_def isupper_def isAscii_def isAsciiUpper_def
        isAsciiLower_def buildSpeechFromTemplate_def
        spec_getSpellingCharAddCapNotification_def)

text \<open>
  The hypothesis on \<^verbatim>\<open>isupper()\<close> is needed outside ASCII as well: for the capital
  letter U+00C9 the example interpreter answers true, and the speech with "say cap"
  switched on has the "cap" word that the speech with every cue off does not have.
\<close>

lemma uppercase_nonascii_depends_on_cues:
  "isupper exampleHost [CHR 0xC9]
   \<and> getSingleCharSelectionSpeech exampleHost [CHR 0xC9] ''en'' None
       = Inr [Text ''cap'', Text [CHR 0xC9], Text '' selected'']
   \<and> getSingleCharSelectionSpeech quietHost [CHR 0xC9] ''en'' None
       = Inr [Text [CHR 0xC9], Text '' selected'']"
  by (simp add: getSingleCharSelectionSpeech_def quietHost_def exampleHost_def
        exampleSynth_def exampleConfig_def quietConfig_def isupper_def isAscii_def
        latin1_isupper_def latin1Upper_def latin1Lower_def buildSpeechFromTemplate_def
        spec_getSpellingCharAddCapNotification_def)

section \<open>Installation and removal\<close>

text \<open>
  Claim C9. \<^verbatim>\<open>terminate\<close> restores the saved entry point and clears the saved
  reference when one is saved; when none is saved it leaves the state as it is. So
  calling it twice is the same as calling it once, calling it on the freshly loaded
  module changes nothing, and calling it after \<^verbatim>\<open>__init__\<close> gives back the state
  before \<^verbatim>\<open>__init__\<close>.
\<close>

theorem terminate_restores_or_noop:
  "(originalSpeakSelectionChange st = Some original \<longrightarrow>
      GlobalPlugin_terminate st =
        st\<lparr>speakSelectionChange := original, originalSpeakSelectionChange := None\<rparr>)
   \<and> (originalSpeakSelectionChange st = None \<longrightarrow> GlobalPlugin_terminate st = st)
   \<and> GlobalPlugin_terminate (GlobalPlugin_terminate st) = GlobalPlugin_terminate st
   \<and> GlobalPlugin_terminate (moduleLoaded f) = moduleLoaded f
   \<and> GlobalPlugin_terminate (GlobalPlugin_init (moduleLoaded f)) = moduleLoaded f"
  by (cases "originalSpeakSelectionChange st")
     (simp_all add: GlobalPlugin_terminate_def GlobalPlugin_init_def moduleLoaded_def Let_def)

theorem terminate_restores_or_noop_witness:
  "originalSpeakSelectionChange (GlobalPlugin_init (moduleLoaded HostSpeakSelectionChange))
      = Some HostSpeakSelectionChange
   \<and> GlobalPlugin_init (moduleLoaded HostSpeakSelectionChange) =
       \<lparr>speakSelectionChange = PatchedSpeakSelectionChange,
        originalSpeakSelectionChange = Some HostSpeakSelectionChange\<rparr>
   \<and> GlobalPlugin_terminate (GlobalPlugin_init (moduleLoaded HostSpeakSelectionChange)) =
       \<lparr>speakSelectionChange = HostSpeakSelectionChange, originalSpeakSelectionChange = None\<rparr>
   \<and> originalSpeakSelectionChange (moduleLoaded (OtherHandler 7)) = None
   \<and> GlobalPlugin_terminate (moduleLoaded (OtherHandler 7)) = moduleLoaded (OtherHandler 7)"
  using terminate_restores_or_noop
          [of "GlobalPlugin_init (moduleLoaded HostSpeakSelectionChange)"
              HostSpeakSelectionChange HostSpeakSelectionChange]
        terminate_restores_or_noop
          [of "moduleLoaded (OtherHandler 7)" HostSpeakSelectionChange "OtherHandler 7"]
  by (simp add: GlobalPlugin_init_def moduleLoaded_def Let_def)

end
